theory Spec2Isabelle
  imports Main "HOL-Library.AList" "HOL-Library.Sublist"
begin

section \<open>Python values\<close>

text \<open>
  The fields of \<^verbatim>\<open>drfexts/serializers/fields.py\<close> convert between model attributes
  and wire values. Three layers of Python values are enough for them:
  \<^item> \<open>pyval\<close>: the hashable scalars \<^verbatim>\<open>None\<close>, \<^verbatim>\<open>int\<close> and \<^verbatim>\<open>str\<close>, which serve as
    choice keys, labels and primary keys. Equality of the datatype is Python's \<^verbatim>\<open>==\<close>
    on these values (\<^verbatim>\<open>bool\<close> and \<^verbatim>\<open>float\<close>, which Python identifies with equal
    integers, are left out of the universe);
  \<^item> \<open>pydata\<close>: parsed request payloads, a scalar, a list or a mapping with string keys;
  \<^item> \<open>pyobj\<close>: any object that is only read through \<^verbatim>\<open>str(obj)\<close> and
    \<^verbatim>\<open>getattr(obj, name)\<close>, given by its string form and its attribute table.
\<close>

datatype pyval = PNone | PInt int | PStr string

datatype pydata =
    Scalar pyval
  | PList "pydata list"
  | PDict "(string \<times> pydata) list"

datatype pyobj = PyObj (obj_str: string) (obj_attrs: "(string \<times> pydata) list")

text \<open>Every \<^verbatim>\<open>raise\<close> of the source, and of the framework calls it makes, is a value.\<close>

datatype exn =
    ValidationError string string  \<comment> \<open>code, message\<close>
  | TypeError
  | ValueError
  | KeyError
  | AttributeError
  | AssertionError
  | FieldDoesNotExist
  | ObjectDoesNotExist
  | MultipleObjectsReturned

section \<open>Dictionaries and strings\<close>

text \<open>
  A Python \<^verbatim>\<open>dict\<close> keeps insertion order and one entry per key: an association list
  with distinct keys. \<^verbatim>\<open>d[k] = v\<close> is \<^const>\<open>AList.update\<close> (replace in place, or append),
  \<^verbatim>\<open>d.get(k, default)\<close> is \<^const>\<open>map_of\<close>.
\<close>

definition dict_get :: "('k \<times> 'v) list \<Rightarrow> 'k \<Rightarrow> 'v \<Rightarrow> 'v" where
  "dict_get d k dflt = (case map_of d k of None \<Rightarrow> dflt | Some v \<Rightarrow> v)"

text \<open>\<^verbatim>\<open>{f(k, v): g(k, v) for k, v in items}\<close>: later items overwrite earlier ones.\<close>

definition dict_of_items :: "('k \<times> 'v) list \<Rightarrow> ('k \<times> 'v) list" where
  "dict_of_items items = foldl (\<lambda>d (k, v). AList.update k v d) [] items"

text \<open>
  \<^verbatim>\<open>str(n)\<close> for an integer: decimal digits, with a minus sign. \<open>digit_char\<close> is
  only applied to numbers below ten.
\<close>

definition digit_char :: "nat \<Rightarrow> char" where
  "digit_char n = ''0123456789'' ! n"

fun nat_digits :: "nat \<Rightarrow> string" where
  "nat_digits n =
     (if n < 10 then [digit_char n] else nat_digits (n div 10) @ [digit_char (n mod 10)])"

declare nat_digits.simps [simp del]

definition int_str :: "int \<Rightarrow> string" where
  "int_str i = (if i < 0 then CHR ''-'' # nat_digits (nat (- i)) else nat_digits (nat i))"

fun py_str :: "pyval \<Rightarrow> string" where
  "py_str PNone = ''None''"
| "py_str (PInt i) = int_str i"
| "py_str (PStr s) = s"

text \<open>
  \<^verbatim>\<open>sep.join(items)\<close> raises \<^verbatim>\<open>TypeError\<close> when an item is not a \<^verbatim>\<open>str\<close>.
\<close>

fun as_strs :: "pydata list \<Rightarrow> string list option" where
  "as_strs [] = Some []"
| "as_strs (Scalar (PStr s) # xs) = map_option ((#) s) (as_strs xs)"
| "as_strs (_ # xs) = None"

fun intercalate :: "string \<Rightarrow> string list \<Rightarrow> string" where
  "intercalate sep [] = []"
| "intercalate sep [s] = s"
| "intercalate sep (s # t # ss) = s @ sep @ intercalate sep (t # ss)"

definition str_join :: "string \<Rightarrow> pydata list \<Rightarrow> exn + string" where
  "str_join sep items =
     (case as_strs items of None \<Rightarrow> Inl TypeError | Some ss \<Rightarrow> Inr (intercalate sep ss))"

section \<open>DisplayChoiceField\<close>

text \<open>
  The choices a field is configured with: single values or (value, label) pairs
  (grouped choices are not modelled).
\<close>

datatype choice = Single pyval | Pair pyval pyval

text \<open>
  The framework's helpers, for flat choices.
  \<^verbatim>\<open>
  def to_choices_dict(choices):
      ret = {}
      for choice in choices:
          if not isinstance(choice, (list, tuple)):
              ret[choice] = choice
          else:
              key, value = choice
              ... ret[key] = value
      return ret
  def flatten_choices_dict(choices):
      ret = {}
      for key, value in choices.items():
          ... ret[key] = value
      return ret
  \<close>
\<close>

definition to_choices_dict :: "choice list \<Rightarrow> (pyval \<times> pyval) list" where
  "to_choices_dict cs =
     foldl (\<lambda>ret c. case c of Single v \<Rightarrow> AList.update v v ret
                           | Pair k v \<Rightarrow> AList.update k v ret) [] cs"

definition flatten_choices_dict :: "(pyval \<times> pyval) list \<Rightarrow> (pyval \<times> pyval) list" where
  "flatten_choices_dict d = dict_of_items d"

text \<open>
  \<^verbatim>\<open>
  def _set_choices(self, choices):
      self.grouped_choices = to_choices_dict(choices)
      self._choices = flatten_choices_dict(self.grouped_choices)
      self.choice_strings_to_values = {
          str(label): value for value, label in self.choices.items()
      }
      self.values_to_choice_strings = dict(self.choices)
  \<close>
  \<open>allow_blank\<close> is the framework's attribute of the same name, read by the inherited
  inbound conversion.
\<close>

record DisplayChoiceField =
  grouped_choices :: "(pyval \<times> pyval) list"
  choices :: "(pyval \<times> pyval) list"
  choice_strings_to_values :: "(string \<times> pyval) list"
  values_to_choice_strings :: "(pyval \<times> pyval) list"
  allow_blank :: bool

definition set_choices :: "DisplayChoiceField \<Rightarrow> choice list \<Rightarrow> DisplayChoiceField" where
  "set_choices self cs =
     (let grouped = to_choices_dict cs;
          flat = flatten_choices_dict grouped
      in self\<lparr>grouped_choices := grouped,
              choices := flat,
              choice_strings_to_values :=
                dict_of_items (map (\<lambda>(value, label). (py_str label, value)) flat),
              values_to_choice_strings := dict_of_items flat\<rparr>)"

definition DisplayChoiceField_init :: "choice list \<Rightarrow> DisplayChoiceField" where
  "DisplayChoiceField_init cs =
     set_choices \<lparr>grouped_choices = [], choices = [], choice_strings_to_values = [],
                  values_to_choice_strings = [], allow_blank = False\<rparr> cs"

text \<open>
  \<^verbatim>\<open>
  def to_representation(self, value):
      if value in ("", None):
          return value
      return self.values_to_choice_strings.get(str(value), value)
  \<close>
  The key looked up is the string \<^verbatim>\<open>str(value)\<close>; the keys of
  \<open>values_to_choice_strings\<close> are the raw values themselves.
\<close>

definition DisplayChoiceField_to_representation :: "DisplayChoiceField \<Rightarrow> pyval \<Rightarrow> pyval" where
  "DisplayChoiceField_to_representation self value =
     (if value = PStr [] \<or> value = PNone then value
      else dict_get (values_to_choice_strings self) (PStr (py_str value)) value)"

text \<open>
  The inbound conversion is inherited from the framework's \<^verbatim>\<open>ChoiceField\<close>:
  \<^verbatim>\<open>
  def to_internal_value(self, data):
      if data == '' and self.allow_blank:
          return ''
      try:
          return self.choice_strings_to_values[str(data)]
      except KeyError:
          self.fail('invalid_choice', input=data)
  \<close>
\<close>

definition DisplayChoiceField_to_internal_value ::
    "DisplayChoiceField \<Rightarrow> pyval \<Rightarrow> exn + pyval" where
  "DisplayChoiceField_to_internal_value self data =
     (if data = PStr [] \<and> allow_blank self then Inr (PStr [])
      else case map_of (choice_strings_to_values self) (py_str data) of
             Some v \<Rightarrow> Inr v
           | None \<Rightarrow> Inl (ValidationError ''invalid_choice''
                         (CHR 0x22 # py_str data @ CHR 0x22 # '' is not a valid choice.'')))"

section \<open>MultiSlugRelatedField\<close>

text \<open>
  \<^verbatim>\<open>
  default_error_messages = {
      "does_not_exist": _("Object with {error_msg} does not exist."),
      "invalid": _("Invalid value."),
  }
  \<close>
  \<^verbatim>\<open>self.fail(key, **kwargs)\<close> formats the message of the key and raises a
  \<^verbatim>\<open>ValidationError\<close> with that code.
\<close>

definition fail_invalid :: "exn + 'a" where
  "fail_invalid = Inl (ValidationError ''invalid'' ''Invalid value.'')"

definition fail_does_not_exist :: "string \<Rightarrow> exn + 'a" where
  "fail_does_not_exist error_msg =
     Inl (ValidationError ''does_not_exist''
            (''Object with '' @ error_msg @ '' does not exist.''))"

record MultiSlugRelatedField =
  slug_fields :: "string list"

text \<open>
  \<^verbatim>\<open>["=".join((lookup, value)) for lookup, value in data.items()]\<close>: the first value
  that is not a string raises \<^verbatim>\<open>TypeError\<close>.
\<close>

fun lookups :: "(string \<times> pydata) list \<Rightarrow> exn + string list" where
  "lookups [] = Inr []"
| "lookups ((lookup, value) # items) =
     (case str_join ''='' [Scalar (PStr lookup), value] of
        Inl e \<Rightarrow> Inl e
      | Inr s \<Rightarrow> (case lookups items of Inl e \<Rightarrow> Inl e | Inr ss \<Rightarrow> Inr (s # ss)))"

text \<open>
  \<^verbatim>\<open>
  def to_internal_value(self, data):
      if not isinstance(data, collections.Mapping):
          self.fail("invalid")
      if not set(data.keys()) == set(self.slug_fields):
          self.fail("invalid")
      try:
          instance = self.get_queryset().get( **data)
          return instance
      except ObjectDoesNotExist:
          lookups = ["=".join((lookup, value)) for lookup, value in data.items()]
          self.fail("does_not_exist", error_msg=" ".join(lookups))
      except (TypeError, ValueError):
          self.fail("invalid")
  \<close>
  The lookup source \<^verbatim>\<open>self.get_queryset().get( **data)\<close> is the parameter \<open>queryset_get\<close>:
  it returns the instance or raises. An exception raised inside the first handler is
  not caught by the second one. (\<^verbatim>\<open>collections.Mapping\<close> is taken to resolve to the
  mapping base class, as it does up to Python 3.9.)
\<close>

definition MultiSlugRelatedField_to_internal_value ::
    "((string \<times> pydata) list \<Rightarrow> exn + pyobj) \<Rightarrow> MultiSlugRelatedField \<Rightarrow> pydata \<Rightarrow> exn + pyobj" where
  "MultiSlugRelatedField_to_internal_value queryset_get self data =
     (case data of
        PDict items \<Rightarrow>
          if set (map fst items) \<noteq> set (slug_fields self) then fail_invalid
          else (case queryset_get items of
                  Inr instance \<Rightarrow> Inr instance
                | Inl ObjectDoesNotExist \<Rightarrow>
                    (case lookups items of
                       Inl e \<Rightarrow> Inl e
                     | Inr ls \<Rightarrow>
                         (case str_join '' '' (map (\<lambda>s. Scalar (PStr s)) ls) of
                            Inl e \<Rightarrow> Inl e
                          | Inr error_msg \<Rightarrow> fail_does_not_exist error_msg))
                | Inl TypeError \<Rightarrow> fail_invalid
                | Inl ValueError \<Rightarrow> fail_invalid
                | Inl e \<Rightarrow> Inl e)
      | _ \<Rightarrow> fail_invalid)"

text \<open>
  \<^verbatim>\<open>
  def to_representation(self, value):
      return dict(zip(self.slug_fields,
                      (getattr(value, slug_field) for slug_field in self.slug_fields)))
  \<close>
\<close>

definition py_getattr :: "pyobj \<Rightarrow> string \<Rightarrow> exn + pydata" where
  "py_getattr obj name =
     (case map_of (obj_attrs obj) name of None \<Rightarrow> Inl AttributeError | Some v \<Rightarrow> Inr v)"

fun getattrs :: "pyobj \<Rightarrow> string list \<Rightarrow> exn + pydata list" where
  "getattrs obj [] = Inr []"
| "getattrs obj (n # ns) =
     (case py_getattr obj n of
        Inl e \<Rightarrow> Inl e
      | Inr v \<Rightarrow> (case getattrs obj ns of Inl e \<Rightarrow> Inl e | Inr vs \<Rightarrow> Inr (v # vs)))"

definition MultiSlugRelatedField_to_representation ::
    "MultiSlugRelatedField \<Rightarrow> pyobj \<Rightarrow> exn + (string \<times> pydata) list" where
  "MultiSlugRelatedField_to_representation self value =
     (case getattrs value (slug_fields self) of
        Inl e \<Rightarrow> Inl e
      | Inr vs \<Rightarrow> Inr (dict_of_items (zip (slug_fields self) vs)))"

section \<open>ComplexPKRelatedField\<close>

subsection \<open>Model metadata and synthesized sub-fields\<close>

text \<open>
  The related model's metadata, as \<^verbatim>\<open>model._meta.get_field(name)\<close> reads it: a table
  from field names to model fields; a model field has a class, a \<^verbatim>\<open>verbose_name\<close>, a
  \<^verbatim>\<open>help_text\<close> and, for a relation, a \<^verbatim>\<open>related_model\<close>.
\<close>

datatype model_field =
  ModelField (field_class: string) (verbose_name: string) (help_text: string)
    (related_model: "model option")
and model = Model (model_fields: "(string \<times> model_field) list")

definition get_field :: "model \<Rightarrow> string \<Rightarrow> exn + model_field" where
  "get_field m name =
     (case map_of (model_fields m) name of
        None \<Rightarrow> Inl FieldDoesNotExist
      | Some f \<Rightarrow> Inr f)"

text \<open>
  The owning serializer, as far as \<open>get_fields\<close> looks at it: it may have a
  \<^verbatim>\<open>Meta\<close> class, which may have a \<^verbatim>\<open>model\<close>.
\<close>

datatype serializer_meta = SerializerMeta (meta_model: "model option")

datatype serializer = Serializer (Meta: "serializer_meta option")

text \<open>
  A synthesized serializer field: its class and the keyword arguments it was built with.
\<close>

datatype subfield =
  SubField (sub_class: string) (sub_source: "string option") (sub_read_only: bool)
    (sub_label: "string option") (sub_help_text: "string option")

text \<open>
  \<^verbatim>\<open>
  def __init__(self, pk_field_name="id", display_field=None,
               display_field_name="label", fields=(), **kwargs):
      self.pk_field_name = pk_field_name
      self.display_field = display_field
      self.display_field_name = display_field_name
      self.extra_fields = fields
      self.instance = None
  \<close>
  \<open>instance_obj\<close> is \<^verbatim>\<open>self.instance\<close>. \<open>queryset\<close>, \<open>parent\<close>, \<open>source\<close> and \<open>source_attrs\<close> are the framework's
  attributes of the field (a queryset is given by its \<^verbatim>\<open>model\<close>). \<open>cached_fields\<close> is
  the entry that \<^verbatim>\<open>cached_property\<close> stores in the instance's \<^verbatim>\<open>__dict__\<close>: a reference
  to the mapping object, absent until the first access.
\<close>

record ComplexPKRelatedField =
  pk_field_name :: string
  display_field :: "string option"
  display_field_name :: string
  extra_fields :: "string list"
  instance_obj :: "pyobj option"
  queryset :: "model option"
  parent :: "serializer option"
  source :: string
  source_attrs :: "string list"
  cached_fields :: "nat option"

definition ComplexPKRelatedField_init ::
    "string \<Rightarrow> string option \<Rightarrow> string \<Rightarrow> string list \<Rightarrow> model option \<Rightarrow> ComplexPKRelatedField" where
  "ComplexPKRelatedField_init pk disp disp_name extra qs =
     \<lparr>pk_field_name = pk, display_field = disp, display_field_name = disp_name,
      extra_fields = extra, instance_obj = None, queryset = qs, parent = None,
      source = [], source_attrs = [], cached_fields = None\<rparr>"

subsection \<open>get\_fields\<close>

text \<open>
  \<^verbatim>\<open>
  if self.queryset is not None:
      model = self.queryset.model
  else:
      assert hasattr(self.parent, "Meta"), ...
      assert hasattr(self.parent.Meta, "model"), ...
      parent_model = getattr(self.parent.Meta, "model")
      model = parent_model._meta.get_field(self.source).related_model
  \<close>
  \<^verbatim>\<open>related_model\<close> is \<^verbatim>\<open>None\<close> for a field that is not a relation.
\<close>

definition resolve_model :: "ComplexPKRelatedField \<Rightarrow> exn + model option" where
  "resolve_model self =
     (case queryset self of
        Some m \<Rightarrow> Inr (Some m)
      | None \<Rightarrow>
          (case parent self of
             None \<Rightarrow> Inl AssertionError
           | Some p \<Rightarrow>
               (case Meta p of
                  None \<Rightarrow> Inl AssertionError
                | Some meta \<Rightarrow>
                    (case meta_model meta of
                       None \<Rightarrow> Inl AssertionError
                     | Some parent_model \<Rightarrow>
                         (case get_field parent_model (source self) of
                            Inl e \<Rightarrow> Inl e
                          | Inr f \<Rightarrow> Inr (related_model f))))))"

text \<open>
  \<^verbatim>\<open>
  fields = OrderedDict()
  if self.display_field and self.display_field not in self.extra_fields:
      fields[self.display_field_name] = serializers.CharField(
          source=self.display_field, read_only=True)
  \<close>
  A string is true when it is not empty.
\<close>

definition display_fields :: "ComplexPKRelatedField \<Rightarrow> (string \<times> subfield) list" where
  "display_fields self =
     (case display_field self of
        Some d \<Rightarrow>
          if d \<noteq> [] \<and> d \<notin> set (extra_fields self)
          then AList.update (display_field_name self)
                 (SubField ''CharField'' (Some d) True None None) []
          else []
      | None \<Rightarrow> [])"

text \<open>
  \<^verbatim>\<open>
  for field_name in self.extra_fields:
      if field_name == self.pk_field_name:
          continue
      try:
          model_field = model._meta.get_field(field_name)
      except FieldDoesNotExist:
          continue
      fields[field_name] = field_mapping[model_field](
          read_only=True,
          label=model_field.verbose_name,
          help_text=model_field.help_text,
      )
  return fields
  \<close>
  \<open>field_mapping\<close> is the framework's table from model field classes to serializer
  field classes, a parameter; a class it does not know raises \<^verbatim>\<open>KeyError\<close>. A
  serializer field class is what the loop calls: from the keyword arguments
  \<^verbatim>\<open>read_only\<close>, \<^verbatim>\<open>label\<close> and \<^verbatim>\<open>help_text\<close> it builds a field, or raises (a class
  whose constructor has further required arguments raises \<^verbatim>\<open>TypeError\<close>). With no
  related model (\<^verbatim>\<open>model\<close> is \<^verbatim>\<open>None\<close>), \<^verbatim>\<open>model._meta\<close> raises \<^verbatim>\<open>AttributeError\<close>.
\<close>

type_synonym serializer_class = "bool \<Rightarrow> string \<Rightarrow> string \<Rightarrow> exn + subfield"

fun add_extra_fields ::
    "(string \<Rightarrow> serializer_class option) \<Rightarrow> model option \<Rightarrow> string \<Rightarrow> string list \<Rightarrow>
     (string \<times> subfield) list \<Rightarrow> exn + (string \<times> subfield) list" where
  "add_extra_fields field_mapping model pk [] fs = Inr fs"
| "add_extra_fields field_mapping model pk (field_name # rest) fs =
     (if field_name = pk then add_extra_fields field_mapping model pk rest fs
      else case model of
             None \<Rightarrow> Inl AttributeError
           | Some m \<Rightarrow>
               (case get_field m field_name of
                  Inl FieldDoesNotExist \<Rightarrow> add_extra_fields field_mapping model pk rest fs
                | Inl e \<Rightarrow> Inl e
                | Inr model_field \<Rightarrow>
                    (case field_mapping (field_class model_field) of
                       None \<Rightarrow> Inl KeyError
                     | Some cls \<Rightarrow>
                         (case cls True (verbose_name model_field) (help_text model_field) of
                            Inl e \<Rightarrow> Inl e
                          | Inr f \<Rightarrow>
                              add_extra_fields field_mapping model pk rest
                                (AList.update field_name f fs)))))"

definition get_fields ::
    "(string \<Rightarrow> serializer_class option) \<Rightarrow> ComplexPKRelatedField \<Rightarrow> exn + (string \<times> subfield) list" where
  "get_fields field_mapping self =
     (case resolve_model self of
        Inl e \<Rightarrow> Inl e
      | Inr model \<Rightarrow>
          add_extra_fields field_mapping model (pk_field_name self) (extra_fields self)
            (display_fields self))"

subsection \<open>The cached accessor fields\<close>

text \<open>
  \<^verbatim>\<open>
  @cached_property
  def fields(self):
      fields = BindingDict(self)
      for key, value in self.get_fields().items():
          fields[key] = value
      return fields
  \<close>
  \<^verbatim>\<open>BindingDict.__setitem__\<close> binds each field to its name and parent, which may raise;
  the binding is the parameter \<open>bind\<close>. Mapping objects live in a heap, a list indexed
  by reference, so that two accesses can be compared for identity. \<^verbatim>\<open>cached_property\<close>
  returns the stored reference when there is one, and otherwise calls the function and
  stores its result; an exception stores nothing. The local variable \<^verbatim>\<open>fields\<close> is
  written \<open>fs\<close>, the accessor \<open>fields_accessor\<close>.
\<close>

fun bind_all ::
    "(string \<Rightarrow> subfield \<Rightarrow> exn + subfield) \<Rightarrow> (string \<times> subfield) list \<Rightarrow>
     (string \<times> subfield) list \<Rightarrow> exn + (string \<times> subfield) list" where
  "bind_all bind [] fs = Inr fs"
| "bind_all bind ((key, value) # items) fs =
     (case bind key value of
        Inl e \<Rightarrow> Inl e
      | Inr bound \<Rightarrow> bind_all bind items (AList.update key bound fs))"

type_synonym heap = "(string \<times> subfield) list list"

definition fields_accessor ::
    "(string \<Rightarrow> serializer_class option) \<Rightarrow> (string \<Rightarrow> subfield \<Rightarrow> exn + subfield) \<Rightarrow>
     ComplexPKRelatedField \<times> heap \<Rightarrow> exn + (nat \<times> ComplexPKRelatedField \<times> heap)" where
  "fields_accessor field_mapping bind st =
     (case st of (self, h) \<Rightarrow>
        (case cached_fields self of
           Some r \<Rightarrow> Inr (r, self, h)
         | None \<Rightarrow>
             (case get_fields field_mapping self of
                Inl e \<Rightarrow> Inl e
              | Inr items \<Rightarrow>
                  (case bind_all bind items [] of
                     Inl e \<Rightarrow> Inl e
                   | Inr bound \<Rightarrow>
                       Inr (length h, self\<lparr>cached_fields := Some (length h)\<rparr>, h @ [bound])))))"

subsection \<open>Inbound and outbound conversion\<close>

text \<open>
  \<^verbatim>\<open>data[key]\<close> with a string key: a mapping gives the value or raises
  \<^verbatim>\<open>KeyError\<close>; \<^verbatim>\<open>None\<close>, an integer, a string and a list raise \<^verbatim>\<open>TypeError\<close>.
\<close>

definition subscript :: "pydata \<Rightarrow> string \<Rightarrow> exn + pydata" where
  "subscript data key =
     (case data of
        PDict items \<Rightarrow> (case map_of items key of None \<Rightarrow> Inl KeyError | Some v \<Rightarrow> Inr v)
      | _ \<Rightarrow> Inl TypeError)"

text \<open>
  \<^verbatim>\<open>
  def to_internal_value(self, data):
      try:
          data = data[self.pk_field_name]
      except TypeError:
          pass
      return super().to_internal_value(data)
  \<close>
  The base field's resolution \<^verbatim>\<open>super().to_internal_value\<close> is the parameter \<open>base\<close>.
\<close>

definition ComplexPKRelatedField_to_internal_value ::
    "(pydata \<Rightarrow> exn + pyobj) \<Rightarrow> ComplexPKRelatedField \<Rightarrow> pydata \<Rightarrow> exn + pyobj" where
  "ComplexPKRelatedField_to_internal_value base self data =
     (case subscript data (pk_field_name self) of
        Inr v \<Rightarrow> base v
      | Inl TypeError \<Rightarrow> base data
      | Inl e \<Rightarrow> Inl e)"

text \<open>
  \<^verbatim>\<open>
  def get_attribute(self, instance):
      self.instance = instance  # cache instance for `to_representation`
      return super().get_attribute(instance)
  \<close>
\<close>

definition ComplexPKRelatedField_get_attribute ::
    "(pyobj \<Rightarrow> exn + pyobj) \<Rightarrow> ComplexPKRelatedField \<Rightarrow> pyobj \<Rightarrow>
     (exn + pyobj) \<times> ComplexPKRelatedField" where
  "ComplexPKRelatedField_get_attribute base self inst =
     (base inst, self\<lparr>instance_obj := Some inst\<rparr>)"

text \<open>
  \<^verbatim>\<open>
  try:
      attr_obj = get_attribute(self.instance, self.source_attrs)
  except AttributeError:
      attr_obj = value
  \<close>
  The framework's helper \<^verbatim>\<open>get_attribute\<close> is a parameter.
\<close>

definition resolve_attr_obj ::
    "(pyobj option \<Rightarrow> string list \<Rightarrow> exn + pyobj) \<Rightarrow> ComplexPKRelatedField \<Rightarrow> pyobj \<Rightarrow>
     exn + pyobj" where
  "resolve_attr_obj get_attribute self value =
     (case get_attribute (instance_obj self) (source_attrs self) of
        Inl AttributeError \<Rightarrow> Inr value
      | Inl e \<Rightarrow> Inl e
      | Inr obj \<Rightarrow> Inr obj)"

text \<open>
  \<^verbatim>\<open>
  if self.display_field_name not in self.extra_fields:
      if self.display_field:
          data[self.display_field_name] = getattr(attr_obj, self.display_field)
      else:
          data[self.display_field_name] = str(attr_obj)
  \<close>
\<close>

definition set_display ::
    "ComplexPKRelatedField \<Rightarrow> pyobj \<Rightarrow> (string \<times> pydata) list \<Rightarrow> exn + (string \<times> pydata) list" where
  "set_display self attr_obj data =
     (if display_field_name self \<notin> set (extra_fields self) then
        (case display_field self of
           Some d \<Rightarrow>
             if d \<noteq> [] then
               (case py_getattr attr_obj d of
                  Inl e \<Rightarrow> Inl e
                | Inr v \<Rightarrow> Inr (AList.update (display_field_name self) v data))
             else Inr (AList.update (display_field_name self)
                         (Scalar (PStr (obj_str attr_obj))) data)
         | None \<Rightarrow> Inr (AList.update (display_field_name self)
                         (Scalar (PStr (obj_str attr_obj))) data))
      else Inr data)"

text \<open>
  \<^verbatim>\<open>
  for field_name in self.extra_fields:
      data[field_name] = getattr(attr_obj, field_name)
  \<close>
\<close>

fun set_extras ::
    "pyobj \<Rightarrow> string list \<Rightarrow> (string \<times> pydata) list \<Rightarrow> exn + (string \<times> pydata) list" where
  "set_extras attr_obj [] data = Inr data"
| "set_extras attr_obj (field_name # rest) data =
     (case py_getattr attr_obj field_name of
        Inl e \<Rightarrow> Inl e
      | Inr v \<Rightarrow> set_extras attr_obj rest (AList.update field_name v data))"

text \<open>
  \<^verbatim>\<open>
  def to_representation(self, value):
      (attr_obj as above)
      data = {self.pk_field_name: super().to_representation(value)}
      (display value as above)
      (extra attributes as above)
      return data
  \<close>
  The base field's \<^verbatim>\<open>super().to_representation\<close> is the parameter \<open>base\<close>.
\<close>

definition ComplexPKRelatedField_to_representation ::
    "(pyobj option \<Rightarrow> string list \<Rightarrow> exn + pyobj) \<Rightarrow> (pyobj \<Rightarrow> exn + pydata) \<Rightarrow>
     ComplexPKRelatedField \<Rightarrow> pyobj \<Rightarrow> exn + (string \<times> pydata) list" where
  "ComplexPKRelatedField_to_representation get_attribute base self value =
     (case resolve_attr_obj get_attribute self value of
        Inl e \<Rightarrow> Inl e
      | Inr attr_obj \<Rightarrow>
          (case base value of
             Inl e \<Rightarrow> Inl e
           | Inr pk \<Rightarrow>
               (case set_display self attr_obj [(pk_field_name self, pk)] of
                  Inl e \<Rightarrow> Inl e
                | Inr data \<Rightarrow> set_extras attr_obj (extra_fields self) data)))"

section \<open>SequenceField\<close>

text \<open>
  \<^verbatim>\<open>
  def __init__(self, start=1, step=1, **kwargs):
      self.start = start
      self.step = step
  def _incr(self):
      curval = getattr(self, self.cached_attr_name, self.start)
      setattr(self, self.cached_attr_name, curval + self.step)
      return curval
  def to_representation(self, value):
      return self._incr()
  \<close>
  The attribute \<^verbatim>\<open>_curval\<close> does not exist on a fresh instance: it is an option.
\<close>

record SequenceField =
  start :: int
  step :: int
  curval :: "int option"

definition SequenceField_init :: "int \<Rightarrow> int \<Rightarrow> SequenceField" where
  "SequenceField_init a d = \<lparr>start = a, step = d, curval = None\<rparr>"

definition SequenceField_incr :: "SequenceField \<Rightarrow> int \<times> SequenceField" where
  "SequenceField_incr self =
     (let c = (case curval self of None \<Rightarrow> start self | Some v \<Rightarrow> v)
      in (c, self\<lparr>curval := Some (c + step self)\<rparr>))"

definition SequenceField_to_representation ::
    "SequenceField \<Rightarrow> pydata \<Rightarrow> int \<times> SequenceField" where
  "SequenceField_to_representation self value = SequenceField_incr self"

text \<open>Successive calls on one instance, one per record serialized; the outputs in order.\<close>

fun SequenceField_calls :: "SequenceField \<Rightarrow> pydata list \<Rightarrow> int list \<times> SequenceField" where
  "SequenceField_calls self [] = ([], self)"
| "SequenceField_calls self (v # vs) =
     (let (r, self') = SequenceField_to_representation self v;
          (rs, self'') = SequenceField_calls self' vs
      in (r # rs, self''))"

text \<open>The value the next call returns: \<^verbatim>\<open>getattr(self, "_curval", self.start)\<close>.\<close>

definition seq_next :: "SequenceField \<Rightarrow> int" where
  "seq_next self = (case curval self of None \<Rightarrow> start self | Some v \<Rightarrow> v)"

section \<open>IsNullField and IsNotNullField\<close>

text \<open>
  \<^verbatim>\<open>
  class IsNullField:     def to_representation(self, value): return value is None
  class IsNotNullField:  def to_representation(self, value): return value is not None
  \<close>
  \<^verbatim>\<open>None\<close> is a singleton, so identity with it is equality with \<open>Scalar PNone\<close>.
\<close>

definition IsNullField_to_representation :: "pydata \<Rightarrow> bool" where
  "IsNullField_to_representation value = (value = Scalar PNone)"

definition IsNotNullField_to_representation :: "pydata \<Rightarrow> bool" where
  "IsNotNullField_to_representation value = (value \<noteq> Scalar PNone)"

section \<open>Example configurations\<close>

text \<open>
  Concrete inputs, on which the theorems below are instantiated: a related model with
  the fields \<^verbatim>\<open>id\<close>, \<^verbatim>\<open>name\<close>, \<^verbatim>\<open>status\<close> and \<^verbatim>\<open>price\<close>, an instance of it, and simple
  stand-ins for the framework's parameters.
\<close>

definition example_model :: model where
  "example_model =
     Model [(''id'', ModelField ''AutoField'' ''ID'' [] None),
            (''name'', ModelField ''CharField'' ''name'' ''The name'' None),
            (''status'', ModelField ''IntegerField'' ''status'' [] None),
            (''price'', ModelField ''DecimalField'' ''price'' [] None)]"

text \<open>
  A serializer field class whose constructor takes keyword arguments only, and one like
  \<^verbatim>\<open>DecimalField(max_digits, decimal_places, ...)\<close>, which cannot be built from
  \<^verbatim>\<open>read_only\<close>, \<^verbatim>\<open>label\<close> and \<^verbatim>\<open>help_text\<close> alone.
\<close>

definition keyword_class :: "string \<Rightarrow> serializer_class" where
  "keyword_class name read_only label help =
     Inr (SubField name None read_only (Some label) (Some help))"

definition positional_class :: serializer_class where
  "positional_class read_only label help = Inl TypeError"

definition example_field_mapping :: "string \<Rightarrow> serializer_class option" where
  "example_field_mapping cls =
     (if cls = ''AutoField'' then Some (keyword_class ''IntegerField'')
      else if cls = ''CharField'' then Some (keyword_class ''CharField'')
      else if cls = ''IntegerField'' then Some (keyword_class ''IntegerField'')
      else if cls = ''DecimalField'' then Some positional_class
      else None)"

definition example_object :: pyobj where
  "example_object =
     PyObj ''Widget'' [(''id'', Scalar (PInt 7)), (''name'', Scalar (PStr ''w'')),
                       (''status'', Scalar (PInt 1))]"

definition example_get_attribute :: "pyobj option \<Rightarrow> string list \<Rightarrow> exn + pyobj" where
  "example_get_attribute inst attrs =
     (case inst of None \<Rightarrow> Inl AttributeError | Some obj \<Rightarrow> Inr obj)"

definition example_base_representation :: "pyobj \<Rightarrow> exn + pydata" where
  "example_base_representation value = py_getattr value ''id''"

definition example_bind :: "string \<Rightarrow> subfield \<Rightarrow> exn + subfield" where
  "example_bind field_name f =
     (if sub_source f = Some field_name then Inl AssertionError else Inr f)"

definition example_base_internal :: "pydata \<Rightarrow> exn + pyobj" where
  "example_base_internal data =
     (if data = Scalar (PInt 7) then Inr example_object
      else Inl (ValidationError ''does_not_exist'' ''Invalid pk - object does not exist.''))"

definition example_field :: ComplexPKRelatedField where
  "example_field =
     ComplexPKRelatedField_init ''id'' (Some ''name'') ''label'' [''status'', ''bogus'']
       (Some example_model)"

definition default_field :: ComplexPKRelatedField where
  "default_field = ComplexPKRelatedField_init ''id'' None ''label'' [] (Some example_model)"

definition integer_choices :: DisplayChoiceField where
  "integer_choices =
     DisplayChoiceField_init [Pair (PInt 1) (PStr ''One''), Pair (PInt 2) (PStr ''Two'')]"


definition code_region :: MultiSlugRelatedField where
  "code_region = \<lparr>slug_fields = [''code'', ''region'']\<rparr>"

definition no_match :: "(string \<times> pydata) list \<Rightarrow> exn + pyobj" where
  "no_match items = Inl ObjectDoesNotExist"

definition label_field :: ComplexPKRelatedField where
  "label_field =
     ComplexPKRelatedField_init ''id'' None ''label'' [''name'', ''status''] (Some example_model)"

definition colliding_field :: ComplexPKRelatedField where
  "colliding_field = ComplexPKRelatedField_init ''id'' None ''id'' [] (Some example_model)"

definition bogus_field :: ComplexPKRelatedField where
  "bogus_field =
     ComplexPKRelatedField_init ''id'' None ''label'' [''bogus''] (Some example_model)"

definition name_in_extras_field :: ComplexPKRelatedField where
  "name_in_extras_field =
     ComplexPKRelatedField_init ''id'' (Some ''name'') ''label'' [''name'', ''status'']
       (Some example_model)"

definition pk_in_extras_field :: ComplexPKRelatedField where
  "pk_in_extras_field =
     ComplexPKRelatedField_init ''id'' None ''label'' [''id'', ''name''] (Some example_model)"

definition price_field :: ComplexPKRelatedField where
  "price_field =
     ComplexPKRelatedField_init ''id'' None ''label'' [''name'', ''price''] (Some example_model)"

text \<open>
  The base field's outbound conversion when it is given \<^verbatim>\<open>pk_field=CharField()\<close>: the
  primary key as a string.
\<close>

definition string_pk_representation :: "pyobj \<Rightarrow> exn + pydata" where
  "string_pk_representation value =
     (case py_getattr value ''id'' of
        Inl e \<Rightarrow> Inl e
      | Inr (Scalar v) \<Rightarrow> Inr (Scalar (PStr (py_str v)))
      | Inr d \<Rightarrow> Inr d)"

lemmas example_simps =
  example_field_def default_field_def label_field_def colliding_field_def bogus_field_def
  name_in_extras_field_def pk_in_extras_field_def price_field_def
  ComplexPKRelatedField_init_def example_model_def example_field_mapping_def
  keyword_class_def positional_class_def example_object_def example_get_attribute_def example_base_representation_def
  example_bind_def example_base_internal_def

section \<open>Theorems\<close>

subsection \<open>SequenceField\<close>

lemma SequenceField_calls_from:
  "fst (SequenceField_calls self vs) =
     map (\<lambda>n. seq_next self + int n * step self) [0..<length vs]"
proof (induction vs arbitrary: self)
  case Nil
  show ?case by simp
next
  case (Cons v vs)
  obtain r self' where step1: "SequenceField_to_representation self v = (r, self')"
    by (cases "SequenceField_to_representation self v")
  then have r: "r = seq_next self"
    and s': "self' = self\<lparr>curval := Some (seq_next self + step self)\<rparr>"
    by (auto simp: SequenceField_to_representation_def SequenceField_incr_def seq_next_def Let_def)
  have nxt: "seq_next self' = seq_next self + step self" and stp: "step self' = step self"
    using s' by (simp_all add: seq_next_def)
  have "fst (SequenceField_calls self (v # vs)) = r # fst (SequenceField_calls self' vs)"
    using step1 by (simp add: split_beta)
  also have "\<dots> = seq_next self #
      map (\<lambda>n. seq_next self + step self + int n * step self) [0..<length vs]"
    using Cons.IH [of self'] r nxt stp by simp
  also have "\<dots> = map (\<lambda>n. seq_next self + int n * step self) [0..<length (v # vs)]"
    by (simp add: upt_rec [of 0 "Suc (length vs)"] map_Suc_upt [symmetric] algebra_simps
        del: upt_Suc)
  finally show ?case .
qed

text \<open>
  C4. On a fresh \<open>SequenceField\<close> with any \<open>start\<close> and \<open>step\<close>, the outputs of
  successive calls of \<open>to_representation\<close> are \<open>start\<close>, \<open>start + step\<close>,
  \<open>start + 2 * step\<close>, ...: the call number \<open>n\<close> (from 0) returns
  \<open>start + n * step\<close>, whatever input values are passed.
\<close>

theorem SequenceField_successive_calls:
  "fst (SequenceField_calls (SequenceField_init a d) vs) =
     map (\<lambda>n. a + int n * d) [0..<length vs]"
  by (simp add: SequenceField_calls_from seq_next_def SequenceField_init_def)

subsection \<open>IsNullField and IsNotNullField\<close>

text \<open>
  C6. For every input value, \<open>IsNullField.to_representation\<close> is true exactly when
  the value is \<^verbatim>\<open>None\<close>, and \<open>IsNotNullField.to_representation\<close> is its logical
  complement on the same value.
\<close>

theorem IsNullField_iff_None_and_complement:
  "IsNullField_to_representation v = (v = Scalar PNone) \<and>
   IsNotNullField_to_representation v = (\<not> IsNullField_to_representation v)"
  by (simp add: IsNullField_to_representation_def IsNotNullField_to_representation_def)

subsection \<open>Dictionaries\<close>

lemma foldl_update_map_of:
  "map_of (foldl (\<lambda>d (k, v). AList.update k v d) d items) = map_of d ++ map_of (rev items)"
proof (induction items arbitrary: d)
  case Nil
  show ?case by simp
next
  case (Cons kv items)
  obtain k v where kv: "kv = (k, v)" by (cases kv)
  have "map_of (foldl (\<lambda>d (k, v). AList.update k v d) d (kv # items)) =
        map_of (AList.update k v d) ++ map_of (rev items)"
    using Cons.IH [of "AList.update k v d"] kv by simp
  also have "\<dots> = map_of d ++ map_of (rev (kv # items))"
    by (simp add: kv update_conv' fun_eq_iff map_add_def split: option.splits)
  finally show ?case .
qed

lemma map_of_dict_of_items: "map_of (dict_of_items items) = map_of (rev items)"
  by (simp add: dict_of_items_def foldl_update_map_of)

lemma foldl_update_distinct:
  "distinct (map fst d) \<Longrightarrow>
     distinct (map fst (foldl (\<lambda>d (k, v). AList.update k v d) d items))"
  by (induction items arbitrary: d) (auto simp: distinct_update)

lemma distinct_dict_of_items: "distinct (map fst (dict_of_items items))"
  by (simp add: dict_of_items_def foldl_update_distinct)

lemma map_of_rev_distinct: "distinct (map fst d) \<Longrightarrow> map_of (rev d) = map_of d"
proof -
  assume d: "distinct (map fst d)"
  then have "distinct (map fst (rev d))"
    by (metis distinct_rev rev_map)
  with d show ?thesis
    by (simp add: map_of_inject_set)
qed

lemma map_of_rev_SomeD: "map_of (rev xs) k = Some v \<Longrightarrow> (k, v) \<in> set xs"
  by (drule map_of_SomeD) simp

subsection \<open>DisplayChoiceField\<close>

lemma choices_distinct: "distinct (map fst (choices (set_choices self cs)))"
  by (simp add: set_choices_def Let_def flatten_choices_dict_def distinct_dict_of_items)

lemma values_to_choice_strings_choices:
  "map_of (values_to_choice_strings (set_choices self cs)) =
     map_of (choices (set_choices self cs))"
  using choices_distinct [of self cs]
  by (simp add: set_choices_def Let_def map_of_dict_of_items map_of_rev_distinct)

text \<open>
  Where the round trip of C1 does hold: a raw value that is a non-empty string is sent
  to its label, and a label whose string form no other entry shares is sent back to its
  raw value.
\<close>

lemma to_representation_str_choice:
  assumes "map_of (choices (set_choices self cs)) (PStr s) = Some label" and "s \<noteq> []"
  shows "DisplayChoiceField_to_representation (set_choices self cs) (PStr s) = label"
  using assms
  by (simp add: DisplayChoiceField_to_representation_def dict_get_def
      values_to_choice_strings_choices)

lemma to_internal_value_label:
  assumes raw: "map_of (choices (set_choices self cs)) raw = Some label"
    and inj: "\<forall>(k, l) \<in> set (choices (set_choices self cs)). py_str l = py_str label \<longrightarrow> k = raw"
    and blank: "\<not> (label = PStr [] \<and> allow_blank (set_choices self cs))"
  shows "DisplayChoiceField_to_internal_value (set_choices self cs) label = Inr raw"
proof -
  let ?f = "set_choices self cs"
  let ?items = "map (\<lambda>(value, label). (py_str label, value)) (choices ?f)"
  have tbl: "map_of (choice_strings_to_values ?f) = map_of (rev ?items)"
    by (simp add: set_choices_def Let_def map_of_dict_of_items)
  have "(raw, label) \<in> set (choices ?f)"
    using raw by (rule map_of_SomeD)
  then have "(py_str label, raw) \<in> set (rev ?items)"
    by force
  then have "py_str label \<in> fst ` set (rev ?items)"
    by force
  then obtain v where v: "map_of (rev ?items) (py_str label) = Some v"
    by (meson map_of_eq_None_iff not_Some_eq)
  then have "(py_str label, v) \<in> set ?items"
    by (rule map_of_rev_SomeD)
  then obtain l where "(v, l) \<in> set (choices ?f)" "py_str l = py_str label"
    by auto
  with inj have "v = raw" by blast
  with v tbl blank show ?thesis
    by (auto simp: DisplayChoiceField_to_internal_value_def)
qed

text \<open>
  C1. The claim: every raw value of the configured mapping is converted to its label
  by \<open>to_representation\<close>, and the label back to the raw value by
  \<open>to_internal_value\<close>. With the integer choices \<^verbatim>\<open>[(1, "One"), (2, "Two")]\<close> the raw
  value \<^verbatim>\<open>1\<close> is in the mapping with the label \<^verbatim>\<open>"One"\<close>, the inbound conversion of
  \<^verbatim>\<open>"One"\<close> is \<^verbatim>\<open>1\<close>, and the outbound conversion of \<^verbatim>\<open>1\<close> is \<^verbatim>\<open>1\<close> itself, not
  the label: the key looked up is \<^verbatim>\<open>str(1)\<close>, the key stored is \<^verbatim>\<open>1\<close>.
\<close>

theorem DisplayChoiceField_integer_choice_not_displayed:
  "map_of (choices integer_choices) (PInt 1) = Some (PStr ''One'') \<and>
   DisplayChoiceField_to_internal_value integer_choices (PStr ''One'') = Inr (PInt 1) \<and>
   DisplayChoiceField_to_representation integer_choices (PInt 1) = PInt 1"
  by code_simp




subsection \<open>MultiSlugRelatedField\<close>

lemma as_strs_strs: "as_strs (map (\<lambda>s. Scalar (PStr s)) ss) = Some ss"
  by (induction ss) simp_all

lemma lookups_strs:
  "lookups (map (\<lambda>(k, s). (k, Scalar (PStr s))) kvs) = Inr (map (\<lambda>(k, s). k @ ''='' @ s) kvs)"
  by (induction kvs) (auto simp: str_join_def)

lemma sublist_intercalate: "s \<in> set ss \<Longrightarrow> sublist s (intercalate sep ss)"
proof (induction sep ss rule: intercalate.induct)
  case (1 sep)
  then show ?case by simp
next
  case (2 sep t)
  then show ?case by simp
next
  case (3 sep t u ss)
  show ?case
  proof (cases "s = t")
    case True
    then show ?thesis by simp
  next
    case False
    with 3 have "sublist s (intercalate sep (u # ss))" by simp
    then have "sublist s ((t @ sep) @ intercalate sep (u # ss))"
      by (meson sublist_append)
    then show ?thesis by simp
  qed
qed

text \<open>
  The parts of C3 that hold: the three ways to the \<^verbatim>\<open>invalid\<close> error, and the
  \<^verbatim>\<open>does_not_exist\<close> error with every clause \<^verbatim>\<open>field=value\<close> in its message when all
  the submitted values are strings.
\<close>

lemma to_internal_value_not_mapping:
  "(\<forall>items. data \<noteq> PDict items) \<Longrightarrow>
     MultiSlugRelatedField_to_internal_value queryset_get self data = fail_invalid"
  by (cases data) (simp_all add: MultiSlugRelatedField_to_internal_value_def)

lemma to_internal_value_key_mismatch:
  "set (map fst items) \<noteq> set (slug_fields self) \<Longrightarrow>
     MultiSlugRelatedField_to_internal_value queryset_get self (PDict items) = fail_invalid"
  by (simp add: MultiSlugRelatedField_to_internal_value_def)

lemma to_internal_value_source_error:
  "set (map fst items) = set (slug_fields self) \<Longrightarrow>
   queryset_get items = Inl TypeError \<or> queryset_get items = Inl ValueError \<Longrightarrow>
     MultiSlugRelatedField_to_internal_value queryset_get self (PDict items) = fail_invalid"
  by (auto simp: MultiSlugRelatedField_to_internal_value_def)

lemma to_internal_value_does_not_exist_strs:
  assumes keys: "set (map fst kvs) = set (slug_fields self)"
    and items: "items = map (\<lambda>(k, s). (k, Scalar (PStr s))) kvs"
    and miss: "queryset_get items = Inl ObjectDoesNotExist"
  shows "\<exists>msg. MultiSlugRelatedField_to_internal_value queryset_get self (PDict items) =
            Inl (ValidationError ''does_not_exist'' msg) \<and>
          (\<forall>(k, s) \<in> set kvs. sublist (k @ ''='' @ s) msg)"
proof -
  let ?ls = "map (\<lambda>(k, s). k @ ''='' @ s) kvs"
  let ?msg = "''Object with '' @ intercalate '' '' ?ls @ '' does not exist.''"
  have k: "set (map fst items) = set (slug_fields self)"
    using keys items by (simp add: comp_def case_prod_beta)
  have "MultiSlugRelatedField_to_internal_value queryset_get self (PDict items) =
          Inl (ValidationError ''does_not_exist'' ?msg)"
    using k miss
    by (simp add: MultiSlugRelatedField_to_internal_value_def items lookups_strs
        str_join_def as_strs_strs fail_does_not_exist_def del: intercalate.simps map_map)
  moreover have "sublist (k @ ''='' @ s) ?msg" if "(k, s) \<in> set kvs" for k s
  proof -
    from that have "k @ ''='' @ s \<in> set ?ls" by force
    then have "sublist (k @ ''='' @ s) (intercalate '' '' ?ls)"
      by (rule sublist_intercalate)
    then show ?thesis
      by (meson sublist_append)
  qed
  ultimately show ?thesis by blast
qed

text \<open>
  C3. The claim: a well-formed lookup that matches no object fails with the
  \<^verbatim>\<open>does_not_exist\<close> error, whose message has every clause \<^verbatim>\<open>field=value\<close>. With the
  slug fields \<^verbatim>\<open>code\<close> and \<^verbatim>\<open>region\<close>, the submitted mapping
  \<^verbatim>\<open>{"code": 1, "region": "US"}\<close> has the configured key set; when the lookup source
  raises \<^verbatim>\<open>ObjectDoesNotExist\<close>, building the clause \<^verbatim>\<open>"=".join(("code", 1))\<close> raises
  \<^verbatim>\<open>TypeError\<close> inside the handler, and that is what the caller gets.
\<close>

theorem MultiSlugRelatedField_non_string_value_TypeError:
  "set (map fst [(''code'', Scalar (PInt 1)), (''region'', Scalar (PStr ''US''))]) =
     set (slug_fields code_region) \<and>
   MultiSlugRelatedField_to_internal_value no_match code_region
     (PDict [(''code'', Scalar (PInt 1)), (''region'', Scalar (PStr ''US''))]) = Inl TypeError"
  by (simp add: MultiSlugRelatedField_to_internal_value_def code_region_def no_match_def
      str_join_def insert_commute)

subsection \<open>ComplexPKRelatedField: get\_fields\<close>


text \<open>
  A known field whose serializer class cannot be built from the three keyword arguments
  makes \<open>get_fields\<close> raise.
\<close>

lemma get_fields_constructor_error:
  "get_fields example_field_mapping price_field = Inl TypeError"
  by (simp add: example_simps get_fields_def resolve_model_def display_fields_def
      get_field_def)




lemma add_extra_fields_filter:
  "add_extra_fields fmap (Some m) pk ns fs =
     add_extra_fields fmap (Some m) pk (filter (\<lambda>n. map_of (model_fields m) n \<noteq> None) ns) fs"
  by (induction ns arbitrary: fs) (auto simp: get_field_def split: option.splits sum.splits)

lemma add_extra_fields_unknown_key:
  "add_extra_fields fmap (Some m) pk ns fs = Inr fs' \<Longrightarrow>
     map_of (model_fields m) n = None \<Longrightarrow> map_of fs' n = map_of fs n"
proof (induction ns arbitrary: fs)
  case Nil
  then show ?case by simp
next
  case (Cons a ns)
  then show ?case
    by (auto simp: get_field_def update_conv' split: if_splits option.splits sum.splits)
qed

lemma add_extra_fields_all_unknown:
  "\<forall>n \<in> set ns. map_of (model_fields m) n = None \<Longrightarrow>
     add_extra_fields fmap (Some m) pk ns fs = Inr fs"
  by (induction ns) (auto simp: get_field_def)

text \<open>
  C9. In \<open>get_fields\<close>, a requested extra attribute name that is not a field of the
  related model is skipped silently. With the related model resolved: the result of
  \<open>get_fields\<close>, mapping or error, is the one the loop gives on the known names
  alone; under an unknown name the returned mapping holds what it held before the loop
  (the unknown name adds no entry); and when every requested name is unknown,
  \<open>get_fields\<close> returns, with no error, the mapping as it was before the loop.
\<close>

theorem get_fields_skips_unknown:
  assumes "resolve_model self = Inr (Some m)"
  shows "get_fields fmap self =
           add_extra_fields fmap (Some m) (pk_field_name self)
             (filter (\<lambda>n. map_of (model_fields m) n \<noteq> None) (extra_fields self))
             (display_fields self) \<and>
         (\<forall>n fs. get_fields fmap self = Inr fs \<and> map_of (model_fields m) n = None \<longrightarrow>
            map_of fs n = map_of (display_fields self) n) \<and>
         ((\<forall>n \<in> set (extra_fields self). map_of (model_fields m) n = None) \<longrightarrow>
            get_fields fmap self = Inr (display_fields self))"
proof (intro conjI allI impI)
  show "get_fields fmap self =
           add_extra_fields fmap (Some m) (pk_field_name self)
             (filter (\<lambda>n. map_of (model_fields m) n \<noteq> None) (extra_fields self))
             (display_fields self)"
    using assms add_extra_fields_filter [of fmap m "pk_field_name self" "extra_fields self"]
    by (simp add: get_fields_def)
next
  fix n fs
  assume "get_fields fmap self = Inr fs \<and> map_of (model_fields m) n = None"
  with assms show "map_of fs n = map_of (display_fields self) n"
    by (auto simp: get_fields_def intro: add_extra_fields_unknown_key)
next
  assume "\<forall>n \<in> set (extra_fields self). map_of (model_fields m) n = None"
  with assms show "get_fields fmap self = Inr (display_fields self)"
    by (simp add: get_fields_def add_extra_fields_all_unknown)
qed

theorem get_fields_skips_unknown_witness:
  "resolve_model example_field = Inr (Some example_model) \<and>
   map_of (model_fields example_model) ''bogus'' = None \<and>
   get_fields example_field_mapping example_field =
     Inr [(''label'', SubField ''CharField'' (Some ''name'') True None None),
          (''status'', SubField ''IntegerField'' None True (Some ''status'') (Some []))] \<and>
   map_of [(''label'', SubField ''CharField'' (Some ''name'') True None None),
           (''status'', SubField ''IntegerField'' None True (Some ''status'') (Some []))]
     ''bogus'' = map_of (display_fields example_field) ''bogus'' \<and>
   map_of (display_fields example_field) ''bogus'' = None \<and>
   get_fields example_field_mapping bogus_field = Inr (display_fields bogus_field) \<and>
   display_fields bogus_field = []"
proof -
  have r: "resolve_model example_field = Inr (Some example_model)"
    and r': "resolve_model bogus_field = Inr (Some example_model)"
    by (simp_all add: example_simps resolve_model_def)
  have u: "map_of (model_fields example_model) ''bogus'' = None"
    by (simp add: example_model_def)
  have g: "get_fields example_field_mapping example_field =
     Inr [(''label'', SubField ''CharField'' (Some ''name'') True None None),
          (''status'', SubField ''IntegerField'' None True (Some ''status'') (Some []))]"
    by (simp add: example_simps get_fields_def resolve_model_def display_fields_def
        get_field_def)
  have d: "map_of (display_fields example_field) ''bogus'' = None"
    and d': "display_fields bogus_field = []"
    by (simp_all add: example_simps display_fields_def)
  have a: "\<forall>n \<in> set (extra_fields bogus_field). map_of (model_fields example_model) n = None"
    by (simp add: example_simps)
  from get_fields_skips_unknown [OF r, of example_field_mapping]
       get_fields_skips_unknown [OF r', of example_field_mapping]
       r u g d d' a
  show ?thesis by blast
qed

subsection \<open>ComplexPKRelatedField: the cached accessor\<close>

text \<open>
  C8. The accessor \<open>fields\<close> is idempotent. After an access that returned, every
  further access on the same instance returns the identical mapping object (the same
  reference) and leaves the instance and the heap as they are: nothing is computed
  again, whatever the model metadata and the binding are by then. The first access
  creates at most one mapping object.
\<close>

theorem fields_accessor_cached:
  assumes "fields_accessor fmap bind (self, h) = Inr (r, self', h')"
  shows "fields_accessor fmap' bind' (self', h') = Inr (r, self', h') \<and>
         cached_fields self' = Some r \<and>
         (h' = h \<or> (\<exists>m. h' = h @ [m] \<and> r = length h))"
  using assms
  by (auto simp: fields_accessor_def split: option.splits sum.splits)

theorem fields_accessor_cached_witness:
  "fields_accessor example_field_mapping example_bind (example_field, []) =
     Inr (0, example_field\<lparr>cached_fields := Some 0\<rparr>,
          [[(''label'', SubField ''CharField'' (Some ''name'') True None None),
            (''status'', SubField ''IntegerField'' None True (Some ''status'') (Some []))]]) \<and>
   fields_accessor example_field_mapping example_bind
     (example_field\<lparr>cached_fields := Some 0\<rparr>,
      [[(''label'', SubField ''CharField'' (Some ''name'') True None None),
        (''status'', SubField ''IntegerField'' None True (Some ''status'') (Some []))]]) =
     Inr (0, example_field\<lparr>cached_fields := Some 0\<rparr>,
          [[(''label'', SubField ''CharField'' (Some ''name'') True None None),
            (''status'', SubField ''IntegerField'' None True (Some ''status'') (Some []))]])"
proof -
  have h: "fields_accessor example_field_mapping example_bind (example_field, []) =
     Inr (0, example_field\<lparr>cached_fields := Some 0\<rparr>,
          [[(''label'', SubField ''CharField'' (Some ''name'') True None None),
            (''status'', SubField ''IntegerField'' None True (Some ''status'') (Some []))]])"
    by (simp add: example_simps fields_accessor_def get_fields_def resolve_model_def
        display_fields_def get_field_def)
  from fields_accessor_cached [OF h, of example_field_mapping example_bind] h show ?thesis
    by blast
qed

subsection \<open>ComplexPKRelatedField: inbound conversion\<close>

text \<open>
  C10. When \<open>to_internal_value\<close> is given a mapping that has no entry under
  \<open>pk_field_name\<close>, the \<^verbatim>\<open>KeyError\<close> of the subscript reaches the caller: it is not
  turned into a \<^verbatim>\<open>ValidationError\<close>, and the base field is not asked. A mapping
  with the key hands the value under it to the base field. Only the \<^verbatim>\<open>TypeError\<close> of
  subscripting a bare value is suppressed, and the bare value itself goes to the base
  field.
\<close>

theorem to_internal_value_KeyError:
  "(data = PDict items \<and> map_of items (pk_field_name self) = None \<longrightarrow>
      ComplexPKRelatedField_to_internal_value base self data = Inl KeyError) \<and>
   (data = PDict items \<and> map_of items (pk_field_name self) = Some v \<longrightarrow>
      ComplexPKRelatedField_to_internal_value base self data = base v) \<and>
   ((\<forall>items. data \<noteq> PDict items) \<longrightarrow>
      ComplexPKRelatedField_to_internal_value base self data = base data)"
  by (cases data) (auto simp: ComplexPKRelatedField_to_internal_value_def subscript_def)

theorem to_internal_value_KeyError_witness:
  "ComplexPKRelatedField_to_internal_value example_base_internal default_field
     (PDict [(''name'', Scalar (PStr ''w''))]) = Inl KeyError \<and>
   ComplexPKRelatedField_to_internal_value example_base_internal default_field
     (PDict [(''id'', Scalar (PInt 7))]) = example_base_internal (Scalar (PInt 7)) \<and>
   ComplexPKRelatedField_to_internal_value example_base_internal default_field
     (Scalar (PInt 7)) = example_base_internal (Scalar (PInt 7))"
proof -
  have pk: "pk_field_name default_field = ''id''"
    by (simp add: example_simps)
  have h1: "map_of [(''name'', Scalar (PStr ''w''))] (pk_field_name default_field) = None"
    and h2: "map_of [(''id'', Scalar (PInt 7))] (pk_field_name default_field) = Some (Scalar (PInt 7))"
    and h3: "\<forall>items. Scalar (PInt 7) \<noteq> PDict items"
    by (simp_all add: pk)
  from to_internal_value_KeyError
         [where data = "PDict [(''name'', Scalar (PStr ''w''))]"
            and items = "[(''name'', Scalar (PStr ''w''))]"
            and self = default_field and base = example_base_internal]
       to_internal_value_KeyError
         [where data = "PDict [(''id'', Scalar (PInt 7))]"
            and items = "[(''id'', Scalar (PInt 7))]"
            and self = default_field and base = example_base_internal
            and v = "Scalar (PInt 7)"]
       to_internal_value_KeyError
         [where data = "Scalar (PInt 7)" and self = default_field
            and base = example_base_internal]
       h1 h2 h3
  show ?thesis by blast
qed

subsection \<open>ComplexPKRelatedField: outbound conversion\<close>

lemma set_extras_lookup:
  "set_extras attr_obj ns data = Inr data' \<Longrightarrow>
     (\<forall>n \<in> set ns. \<exists>v. py_getattr attr_obj n = Inr v \<and> map_of data' n = Some v) \<and>
     (\<forall>k. k \<notin> set ns \<longrightarrow> map_of data' k = map_of data k)"
proof (induction ns arbitrary: data)
  case Nil
  then show ?case by simp
next
  case (Cons a ns)
  from Cons.prems obtain v where v: "py_getattr attr_obj a = Inr v"
    and rest: "set_extras attr_obj ns (AList.update a v data) = Inr data'"
    by (auto split: sum.splits)
  note IH = Cons.IH [OF rest]
  show ?case
  proof (intro conjI ballI allI impI)
    fix n assume n: "n \<in> set (a # ns)"
    show "\<exists>v. py_getattr attr_obj n = Inr v \<and> map_of data' n = Some v"
    proof (cases "n \<in> set ns")
      case True
      with IH show ?thesis by blast
    next
      case False
      with n have "n = a" by simp
      moreover from IH False have "map_of data' n = map_of (AList.update a v data) n"
        by blast
      ultimately show ?thesis using v by (simp add: update_conv')
    qed
  next
    fix k assume "k \<notin> set (a # ns)"
    then have "k \<notin> set ns" "k \<noteq> a" by auto
    with IH show "map_of data' k = map_of data k"
      by (simp add: update_conv')
  qed
qed

text \<open>
  C5, as stated: the returned mapping has the resolved primary key under
  \<open>pk_field_name\<close>. With \<open>pk_field_name\<close> and \<open>display_field_name\<close> both
  \<^verbatim>\<open>id\<close> and no display attribute, the base field resolves the primary key \<^verbatim>\<open>7\<close>,
  and the mapping returned has the string form of the object under \<^verbatim>\<open>id\<close>: the
  display value has overwritten the primary key. With \<^verbatim>\<open>id\<close> among the extra
  attribute names and a base field that resolves the primary key to the string
  \<^verbatim>\<open>"7"\<close>, the mapping returned has the attribute \<^verbatim>\<open>id\<close> of the object, the integer
  \<^verbatim>\<open>7\<close>, under \<^verbatim>\<open>id\<close>: the extra attribute has overwritten the primary key.
\<close>

theorem to_representation_key_collision_counterexample:
  "example_base_representation example_object = Inr (Scalar (PInt 7)) \<and>
   ComplexPKRelatedField_to_representation example_get_attribute example_base_representation
     colliding_field example_object = Inr [(''id'', Scalar (PStr ''Widget''))] \<and>
   string_pk_representation example_object = Inr (Scalar (PStr ''7'')) \<and>
   ComplexPKRelatedField_to_representation example_get_attribute string_pk_representation
     pk_in_extras_field example_object =
     Inr [(''id'', Scalar (PInt 7)), (''label'', Scalar (PStr ''Widget'')),
          (''name'', Scalar (PStr ''w''))]"
  by code_simp

text \<open>
  C5, amended. Whenever \<open>to_representation\<close> returns a mapping, the mapping has the
  value of every extra attribute of the resolved object under the attribute's name and,
  when \<open>display_field_name\<close> is not one of the extra names, under
  \<open>display_field_name\<close> the value of the configured display attribute of the
  object, or the string form of the object when no display attribute is configured;
  and it has the primary key resolved by the base field under \<open>pk_field_name\<close>
  provided \<open>pk_field_name\<close> is neither one of the extra attribute names nor
  \<open>display_field_name\<close>.
\<close>

theorem to_representation_contents:
  assumes ret: "ComplexPKRelatedField_to_representation get_attribute base self value = Inr data"
  shows "\<exists>attr_obj pk.
           resolve_attr_obj get_attribute self value = Inr attr_obj \<and>
           base value = Inr pk \<and>
           (pk_field_name self \<notin> set (extra_fields self) \<and>
            pk_field_name self \<noteq> display_field_name self \<longrightarrow>
              map_of data (pk_field_name self) = Some pk) \<and>
           (\<forall>n \<in> set (extra_fields self).
              \<exists>v. py_getattr attr_obj n = Inr v \<and> map_of data n = Some v) \<and>
           (display_field_name self \<notin> set (extra_fields self) \<longrightarrow>
              (case display_field self of
                 None \<Rightarrow> map_of data (display_field_name self) =
                          Some (Scalar (PStr (obj_str attr_obj)))
               | Some d \<Rightarrow>
                   if d = [] then map_of data (display_field_name self) =
                                   Some (Scalar (PStr (obj_str attr_obj)))
                   else \<exists>v. py_getattr attr_obj d = Inr v \<and>
                            map_of data (display_field_name self) = Some v))"
proof -
  from ret obtain attr_obj pk data0 where
    a: "resolve_attr_obj get_attribute self value = Inr attr_obj"
    and b: "base value = Inr pk"
    and d: "set_display self attr_obj [(pk_field_name self, pk)] = Inr data0"
    and e: "set_extras attr_obj (extra_fields self) data0 = Inr data"
    by (auto simp: ComplexPKRelatedField_to_representation_def split: sum.splits)
  note ex = set_extras_lookup [OF e]
  have pk: "map_of data (pk_field_name self) = Some pk"
    if pk_extra: "pk_field_name self \<notin> set (extra_fields self)"
      and pk_disp: "pk_field_name self \<noteq> display_field_name self"
  proof -
    have "map_of data0 (pk_field_name self) = Some pk"
      using d pk_disp
      by (auto simp: set_display_def update_conv' split: if_splits option.splits sum.splits)
    with ex pk_extra show ?thesis by simp
  qed
  have disp: "case display_field self of
                 None \<Rightarrow> map_of data (display_field_name self) =
                          Some (Scalar (PStr (obj_str attr_obj)))
               | Some d \<Rightarrow>
                   if d = [] then map_of data (display_field_name self) =
                                   Some (Scalar (PStr (obj_str attr_obj)))
                   else \<exists>v. py_getattr attr_obj d = Inr v \<and>
                            map_of data (display_field_name self) = Some v"
    if nd: "display_field_name self \<notin> set (extra_fields self)"
  proof -
    from ex nd have same:
      "map_of data (display_field_name self) = map_of data0 (display_field_name self)"
      by blast
    show ?thesis
      using d nd unfolding same
      by (auto simp: set_display_def update_conv' split: if_splits option.splits sum.splits)
  qed
  from a b pk ex disp show ?thesis by blast
qed

theorem to_representation_contents_witness:
  "ComplexPKRelatedField_to_representation example_get_attribute example_base_representation
     label_field example_object =
     Inr [(''id'', Scalar (PInt 7)), (''label'', Scalar (PStr ''Widget'')),
          (''name'', Scalar (PStr ''w'')), (''status'', Scalar (PInt 1))] \<and>
   pk_field_name label_field \<notin> set (extra_fields label_field) \<and>
   pk_field_name label_field \<noteq> display_field_name label_field \<and>
   display_field_name label_field \<notin> set (extra_fields label_field) \<and>
   display_field label_field = None \<and>
   (\<exists>attr_obj pk.
      resolve_attr_obj example_get_attribute label_field example_object = Inr attr_obj \<and>
      example_base_representation example_object = Inr pk \<and>
      map_of [(''id'', Scalar (PInt 7)), (''label'', Scalar (PStr ''Widget'')),
              (''name'', Scalar (PStr ''w'')), (''status'', Scalar (PInt 1))]
        (pk_field_name label_field) = Some pk \<and>
      (\<forall>n \<in> set (extra_fields label_field).
         \<exists>v. py_getattr attr_obj n = Inr v \<and>
             map_of [(''id'', Scalar (PInt 7)), (''label'', Scalar (PStr ''Widget'')),
                     (''name'', Scalar (PStr ''w'')), (''status'', Scalar (PInt 1))] n =
               Some v) \<and>
      map_of [(''id'', Scalar (PInt 7)), (''label'', Scalar (PStr ''Widget'')),
              (''name'', Scalar (PStr ''w'')), (''status'', Scalar (PInt 1))]
        (display_field_name label_field) = Some (Scalar (PStr (obj_str attr_obj))))"
proof -
  have h1: "ComplexPKRelatedField_to_representation example_get_attribute
      example_base_representation label_field example_object =
     Inr [(''id'', Scalar (PInt 7)), (''label'', Scalar (PStr ''Widget'')),
          (''name'', Scalar (PStr ''w'')), (''status'', Scalar (PInt 1))]"
    by (simp add: example_simps ComplexPKRelatedField_to_representation_def
      resolve_attr_obj_def set_display_def py_getattr_def)
  have h2: "pk_field_name label_field \<notin> set (extra_fields label_field)"
    and h3: "pk_field_name label_field \<noteq> display_field_name label_field"
    and h4: "display_field_name label_field \<notin> set (extra_fields label_field)"
    and h5: "display_field label_field = None"
    by (simp_all add: example_simps)
  from to_representation_contents [OF h1] obtain attr_obj pk where
    "resolve_attr_obj example_get_attribute label_field example_object = Inr attr_obj"
    "example_base_representation example_object = Inr pk"
    "map_of [(''id'', Scalar (PInt 7)), (''label'', Scalar (PStr ''Widget'')),
             (''name'', Scalar (PStr ''w'')), (''status'', Scalar (PInt 1))]
        (pk_field_name label_field) = Some pk"
    "\<forall>n \<in> set (extra_fields label_field).
         \<exists>v. py_getattr attr_obj n = Inr v \<and>
             map_of [(''id'', Scalar (PInt 7)), (''label'', Scalar (PStr ''Widget'')),
                     (''name'', Scalar (PStr ''w'')), (''status'', Scalar (PInt 1))] n =
               Some v"
    "map_of [(''id'', Scalar (PInt 7)), (''label'', Scalar (PStr ''Widget'')),
              (''name'', Scalar (PStr ''w'')), (''status'', Scalar (PInt 1))]
        (display_field_name label_field) = Some (Scalar (PStr (obj_str attr_obj)))"
    using h2 h3 h4 h5 by auto
  with h1 h2 h3 h4 h5 show ?thesis by blast
qed

end
